theory Spec2Isabelle
  imports Main
begin

section \<open>The comment update command of jira-cli\<close>

text \<open>
  A shallow embedding of \<^verbatim>\<open>internal/cmd/issue/comment/update/update.go\<close>.
  The command talks to a terminal, a file system, a remote client and a browser. Each of
  these is a field of the record \<open>world\<close>, which answers every call the command makes, and
  every call is written to a trace of events, in the order of the source. A run of the
  command is the trace together with either the value returned or the way the process
  stopped.
\<close>

subsection \<open>Data model\<close>

text \<open>The struct \<^verbatim>\<open>addParams\<close> (lines 119-127).\<close>

record addParams =
  issueKey :: string
  commentId :: string
  body :: string
  template :: string
  noInput :: bool
  internal :: bool
  debug :: bool

text \<open>
  The structured document of \<^verbatim>\<open>pkg/adf\<close>. The command never looks inside it: it only
  hands it to the translator, so the document is kept opaque.
\<close>

datatype adf = ADF string

text \<open>
  The field \<^verbatim>\<open>Body\<close> of a fetched comment is an interface value. The source tests it
  for \<^verbatim>\<open>*adf.ADF\<close>, then asserts \<^verbatim>\<open>string\<close>; any other dynamic type is \<open>OtherBody\<close>.
\<close>

datatype commentBody = ADFBody adf | StringBody string | OtherBody

text \<open>
  The flags as the flag parser returns them: Go's pair of the value and the error
  (\<open>None\<close> for \<^verbatim>\<open>nil\<close>).
\<close>

record flagSet =
  flagDebug :: "bool \<times> string option"
  flagTemplate :: "string \<times> string option"
  flagNoInput :: "bool \<times> string option"
  flagInternal :: "bool \<times> string option"
  flagWeb :: "bool \<times> string option"

text \<open>The prompts of the survey library that the source builds.\<close>

datatype prompt =
    Input string
  | JiraEditor string string bool bool bool
  | Select string "string list"

datatype question = Question (qname: string) (qprompt: prompt) (qrequired: bool)

text \<open>The calls the command makes to the outside, in the order it makes them.\<close>

datatype event =
    CallReadFile string
  | Ask question
  | CallGetIssueComment string string
  | Info string
  | CallUpdateIssueComment string string string bool
  | SpinnerStop
  | Success string "string list"
  | Printf string "string list"
  | CallNavigate string string

text \<open>
  How a process stops before the end of \<^verbatim>\<open>update\<close>: \<^verbatim>\<open>cmdutil.Failed\<close> with its format
  and arguments, \<^verbatim>\<open>cmdutil.ExitIfError\<close> with the error, or a Go panic.
\<close>

datatype stop = Failed string "string list" | ExitError string | Panic

type_synonym 'a run = "event list \<times> (stop + 'a)"

abbreviation trace :: "'a run \<Rightarrow> event list" where
  "trace m \<equiv> fst m"

abbreviation outcome :: "'a run \<Rightarrow> stop + 'a" where
  "outcome m \<equiv> snd m"

text \<open>
  The outside world of one invocation. \<open>stdinHasData\<close> is \<^verbatim>\<open>cmdutil.StdinHasData()\<close>,
  \<open>projectKey\<close> and \<open>server\<close> are the configuration values \<^verbatim>\<open>project.key\<close> and
  \<^verbatim>\<open>server\<close>, \<open>readFile\<close> is \<^verbatim>\<open>cmdutil.ReadFile\<close>, \<open>respond\<close> is what the terminal
  answers to one question (an error or the answer), \<open>getIssueComment\<close> and
  \<open>updateIssueComment\<close> are the remote client, \<open>navigate\<close> is \<^verbatim>\<open>cmdutil.Navigate\<close>,
  \<open>translateADF\<close> is the document-to-markdown translator, \<open>fromJiraMD\<close> is
  \<^verbatim>\<open>md.FromJiraMD\<close> and \<open>generateServerBrowseURL\<close> is the helper of that name.
  A Go \<^verbatim>\<open>error\<close> is a \<open>string option\<close>, \<open>None\<close> for \<^verbatim>\<open>nil\<close>.
\<close>

record world =
  stdinHasData :: bool
  projectKey :: string
  server :: string
  readFile :: "string \<Rightarrow> string + string"
  respond :: "question \<Rightarrow> string + string"
  getIssueComment :: "string \<Rightarrow> string \<Rightarrow> string + commentBody"
  updateIssueComment :: "string \<Rightarrow> string \<Rightarrow> string \<Rightarrow> bool \<Rightarrow> string option"
  navigate :: "string \<Rightarrow> string \<Rightarrow> string option"
  translateADF :: "adf \<Rightarrow> string"
  fromJiraMD :: "string \<Rightarrow> string"
  generateServerBrowseURL :: "string \<Rightarrow> string \<Rightarrow> string"

subsection \<open>Sequencing\<close>

definition ret :: "'a \<Rightarrow> 'a run" where
  "ret x = ([], Inr x)"

definition emit :: "event \<Rightarrow> unit run" where
  "emit e = ([e], Inr ())"

definition andThen :: "'a run \<Rightarrow> ('a \<Rightarrow> 'b run) \<Rightarrow> 'b run" where
  "andThen m f =
     (case m of
        (t, Inl e) \<Rightarrow> (t, Inl e)
      | (t, Inr x) \<Rightarrow> (case f x of (t', r) \<Rightarrow> (t @ t', r)))"

subsection \<open>Helpers of the repository that the source file calls\<close>

text \<open>
  Modelled from the spec: \<^verbatim>\<open>cmdutil.Failed\<close> is not in the source file. The spec says of
  every call of it that the command terminates with the message ("the command terminates
  with the specific missing-field error", "terminates with a user-visible action aborted
  failure", "any read failure is fatal and aborts the command").
\<close>

definition Failed_exit :: "string \<Rightarrow> string list \<Rightarrow> 'a run" where
  "Failed_exit msg margs = ([], Inl (Failed msg margs))"

text \<open>
  Modelled from the spec: \<^verbatim>\<open>cmdutil.ExitIfError\<close> is not in the source file. The spec:
  "no error is swallowed or retried locally; every failure path terminates the command",
  with the original error surfaced. A \<^verbatim>\<open>nil\<close> error lets the command go on.
\<close>

definition ExitIfError :: "string option \<Rightarrow> unit run" where
  "ExitIfError err = (case err of None \<Rightarrow> ret () | Some e \<Rightarrow> ([], Inl (ExitError e)))"

text \<open>
  Modelled from the spec: \<^verbatim>\<open>cmdutil.GetJiraIssueKey\<close> is not in the source file. The
  spec: the issue key is "derived from a raw token plus a configured default project
  prefix if the token is a bare number"; "prepend the configured default project key and a
  separator; otherwise pass through unchanged". The separator is the one of the spec's
  scenario, where 12 becomes PROJ-12.
\<close>

definition isBareNumber :: "string \<Rightarrow> bool" where
  "isBareNumber s \<longleftrightarrow> s \<noteq> [] \<and> list_all (\<lambda>c. c \<in> set ''0123456789'') s"

definition GetJiraIssueKey :: "string \<Rightarrow> string \<Rightarrow> string" where
  "GetJiraIssueKey project key =
     (if isBareNumber key then project @ ''-'' @ key else key)"

text \<open>
  Modelled from the spec: the constants \<^verbatim>\<open>cmdcommon.ActionSubmit\<close> and
  \<^verbatim>\<open>cmdcommon.ActionCancel\<close> are not in the source file. The spec names the two options
  "submit" and "cancel".
\<close>

definition ActionSubmit :: string where
  "ActionSubmit = ''submit''"

definition ActionCancel :: string where
  "ActionCancel = ''cancel''"

text \<open>
  \<^verbatim>\<open>survey.Ask(qs, &ans)\<close>: the questions are asked in order, the first error ends the
  asking and is returned, and each answer is stored under the name of its question.
\<close>

fun surveyAsk :: "world \<Rightarrow> question list \<Rightarrow> (string option \<times> (string \<times> string) list) run" where
  "surveyAsk w [] = ret (None, [])"
| "surveyAsk w (q # qs) =
     andThen (emit (Ask q)) (\<lambda>_.
       case respond w q of
         Inl e \<Rightarrow> ret (Some e, [])
       | Inr a \<Rightarrow> andThen (surveyAsk w qs) (\<lambda>(err, answers). ret (err, (qname q, a) # answers)))"

text \<open>A field of the answer that no question filled keeps Go's zero value, the empty string.\<close>

definition answerOf :: "string \<Rightarrow> (string \<times> string) list \<Rightarrow> string" where
  "answerOf name answers = (case map_of answers name of None \<Rightarrow> [] | Some a \<Rightarrow> a)"

subsection \<open>The source file\<close>

text \<open>\<^verbatim>\<open>parseArgsAndFlags\<close> (lines 129-164).\<close>

definition parseArgsAndFlags :: "world \<Rightarrow> flagSet \<Rightarrow> string list \<Rightarrow> addParams run" where
  "parseArgsAndFlags w fl args =
     (let nargs = length args;
          k = (if nargs \<ge> 1 then GetJiraIssueKey (projectKey w) (args ! 0) else []);
          c = (if nargs \<ge> 2 then args ! 1 else []);
          b = (if nargs \<ge> 3 then args ! 2 else [])
      in andThen (ExitIfError (snd (flagDebug fl))) (\<lambda>_.
         andThen (ExitIfError (snd (flagTemplate fl))) (\<lambda>_.
         andThen (ExitIfError (snd (flagNoInput fl))) (\<lambda>_.
         andThen (ExitIfError (snd (flagInternal fl))) (\<lambda>_.
           ret \<lparr>issueKey = k, commentId = c, body = b, template = fst (flagTemplate fl),
                noInput = fst (flagNoInput fl), internal = fst (flagInternal fl),
                debug = fst (flagDebug fl)\<rparr>)))))"

text \<open>
  \<^verbatim>\<open>setIssueKey\<close> (lines 172-190). A method returns its Go \<^verbatim>\<open>error\<close> together with the
  parameters it has updated through the receiver.
\<close>

definition issueKeyQuestion :: question where
  "issueKeyQuestion = Question ''issueKey'' (Input ''Issue key'') True"

definition setIssueKey :: "world \<Rightarrow> addParams \<Rightarrow> (string option \<times> addParams) run" where
  "setIssueKey w p =
     (if issueKey p \<noteq> [] then ret (None, p)
      else andThen (surveyAsk w [issueKeyQuestion]) (\<lambda>(err, answers).
             case err of
               Some e \<Rightarrow> ret (Some e, p)
             | None \<Rightarrow>
                 ret (None, p\<lparr>issueKey :=
                   GetJiraIssueKey (projectKey w) (answerOf ''issueKey'' answers)\<rparr>)))"

text \<open>\<^verbatim>\<open>setCommentId\<close> (lines 192-210).\<close>

definition commentIdQuestion :: question where
  "commentIdQuestion = Question ''commendId'' (Input ''Comment Id'') True"

definition setCommentId :: "world \<Rightarrow> addParams \<Rightarrow> (string option \<times> addParams) run" where
  "setCommentId w p =
     (if commentId p \<noteq> [] then ret (None, p)
      else andThen (surveyAsk w [commentIdQuestion]) (\<lambda>(err, answers).
             case err of
               Some e \<Rightarrow> ret (Some e, p)
             | None \<Rightarrow> ret (None, p\<lparr>commentId := answerOf ''commendId'' answers\<rparr>)))"

text \<open>
  \<^verbatim>\<open>setBody\<close> (lines 212-272). The editor question carries the message, the default text
  and the settings \<^verbatim>\<open>HideDefault\<close>, \<^verbatim>\<open>AppendDefault\<close> and \<^verbatim>\<open>BlankAllowed\<close>.
\<close>

definition bodyQuestion :: "string \<Rightarrow> question" where
  "bodyQuestion defaultBody =
     Question ''body'' (JiraEditor ''Comment body'' defaultBody True True False) False"

text \<open>Lines 222-228: the template file or the standard input.\<close>

definition readTemplate :: "world \<Rightarrow> addParams \<Rightarrow> string run" where
  "readTemplate w p =
     (if template p \<noteq> [] \<or> stdinHasData w
      then andThen (emit (CallReadFile (template p))) (\<lambda>_.
             case readFile w (template p) of
               Inl err \<Rightarrow> Failed_exit ''Error: %s'' [err]
             | Inr b \<Rightarrow> ret b)
      else ret [])"

text \<open>Lines 235-248: the text of the existing comment.\<close>

definition prefill :: "world \<Rightarrow> addParams \<Rightarrow> string \<Rightarrow> string run" where
  "prefill w p defaultBody =
     (if template p = []
      then andThen (emit (CallGetIssueComment (issueKey p) (commentId p))) (\<lambda>_.
             case getIssueComment w (issueKey p) (commentId p) of
               Inl err \<Rightarrow> andThen (ExitIfError (Some err)) (\<lambda>_. ret defaultBody)
             | Inr (ADFBody adfNode) \<Rightarrow> ret (translateADF w adfNode)
             | Inr (StringBody s) \<Rightarrow> ret (fromJiraMD w s)
             | Inr OtherBody \<Rightarrow> ([], Inl Panic))
      else ret defaultBody)"

definition setBody :: "world \<Rightarrow> addParams \<Rightarrow> (string option \<times> addParams) run" where
  "setBody w p =
     (if body p \<noteq> [] then ret (None, p)
      else andThen (readTemplate w p) (\<lambda>defaultBody.
        if noInput p then ret (None, p\<lparr>body := defaultBody\<rparr>)
        else andThen (prefill w p defaultBody) (\<lambda>defaultBody.
          let qs = (if body p = [] then [bodyQuestion defaultBody] else [])
          in andThen (surveyAsk w qs) (\<lambda>(err, ans).
             andThen (ExitIfError err) (\<lambda>_.
               ret (None, p\<lparr>body := answerOf ''body'' ans\<rparr>))))))"

text \<open>\<^verbatim>\<open>getNextAction\<close> (lines 274-286).\<close>

definition getNextAction :: question where
  "getNextAction =
     Question ''action'' (Select ''What's next?'' [ActionSubmit, ActionCancel]) True"

text \<open>\<^verbatim>\<open>isNonInteractive\<close> and \<^verbatim>\<open>isMandatoryParamsMissing\<close> (lines 288-294).\<close>

definition isNonInteractive :: "world \<Rightarrow> addParams \<Rightarrow> bool" where
  "isNonInteractive w p \<longleftrightarrow> stdinHasData w \<or> template p = ''-''"

definition isMandatoryParamsMissing :: "addParams \<Rightarrow> bool" where
  "isMandatoryParamsMissing p \<longleftrightarrow> issueKey p = [] \<or> commentId p = []"

text \<open>
  \<^verbatim>\<open>update\<close> (lines 67-117), in three blocks and the function itself. The variable
  \<^verbatim>\<open>params\<close> and the field \<^verbatim>\<open>uc.params\<close> are one pointer, so the test of
  \<^verbatim>\<open>params.noInput\<close> in line 90 reads what line 77 has written. Building the client
  in line 69 and probing the standard input with \<^verbatim>\<open>cmdutil.StdinHasData\<close> call nothing
  that a property below speaks about, and are no events.
\<close>

text \<open>Lines 76-82.\<close>

definition detectMode :: "world \<Rightarrow> addParams \<Rightarrow> addParams run" where
  "detectMode w p =
     (if isNonInteractive w p
      then (let p' = p\<lparr>noInput := True\<rparr>
            in if isMandatoryParamsMissing p'
               then Failed_exit
                 ''`ISSUE-KEY` & `COMMENT-ID` are mandatory when using a non-interactive mode'' []
               else ret p')
      else ret p)"

text \<open>Lines 90-98.\<close>

definition confirm :: "world \<Rightarrow> addParams \<Rightarrow> unit run" where
  "confirm w p =
     (if \<not> noInput p
      then andThen (surveyAsk w [getNextAction]) (\<lambda>(err, answer).
           andThen (ExitIfError err) (\<lambda>_.
             if answerOf ''action'' answer = ActionCancel
             then Failed_exit ''Action aborted'' []
             else ret ()))
      else ret ())"

text \<open>Lines 100-116.\<close>

definition commit :: "world \<Rightarrow> flagSet \<Rightarrow> addParams \<Rightarrow> unit run" where
  "commit w fl p =
     andThen (emit (Info ''Adding comment'')) (\<lambda>_.
     andThen (emit (CallUpdateIssueComment (issueKey p) (commentId p) (body p) (internal p))) (\<lambda>_.
     andThen (emit SpinnerStop) (\<lambda>_.
     andThen (ExitIfError (updateIssueComment w (issueKey p) (commentId p) (body p) (internal p))) (\<lambda>_.
     andThen (emit (Success ''Comment %q of issue %q updated'' [commentId p, issueKey p])) (\<lambda>_.
     andThen (emit (Printf ''%s?focusedCommentId=%s\<newline>''
                [generateServerBrowseURL w (server w) (issueKey p), commentId p])) (\<lambda>_.
       if fst (flagWeb fl)
       then andThen (emit (CallNavigate (server w) (issueKey p))) (\<lambda>_.
              ExitIfError (navigate w (server w) (issueKey p)))
       else ret ()))))))"

definition update :: "world \<Rightarrow> flagSet \<Rightarrow> string list \<Rightarrow> unit run" where
  "update w fl args =
     andThen (parseArgsAndFlags w fl args) (\<lambda>params.
     andThen (detectMode w params) (\<lambda>p1.
     andThen (setIssueKey w p1) (\<lambda>(err, p2).
     andThen (ExitIfError err) (\<lambda>_.
     andThen (setCommentId w p2) (\<lambda>(err, p3).
     andThen (ExitIfError err) (\<lambda>_.
     andThen (setBody w p3) (\<lambda>(err, p4).
     andThen (ExitIfError err) (\<lambda>_.
     andThen (confirm w p4) (\<lambda>_.
       commit w fl p4)))))))))"

subsection \<open>Reading a trace\<close>

text \<open>The kinds of event that the properties below speak about.\<close>

fun isFileRead :: "event \<Rightarrow> bool" where
  "isFileRead (CallReadFile _) = True"
| "isFileRead _ = False"

fun isFetch :: "event \<Rightarrow> bool" where
  "isFetch (CallGetIssueComment _ _) = True"
| "isFetch _ = False"

fun isUpdateCall :: "event \<Rightarrow> bool" where
  "isUpdateCall (CallUpdateIssueComment _ _ _ _) = True"
| "isUpdateCall _ = False"

fun isPrompt :: "event \<Rightarrow> bool" where
  "isPrompt (Ask _) = True"
| "isPrompt _ = False"

fun isNavigate :: "event \<Rightarrow> bool" where
  "isNavigate (CallNavigate _ _) = True"
| "isNavigate _ = False"

text \<open>
  \<open>holds m E Q\<close>: every event of the run \<open>m\<close> satisfies \<open>E\<close>, and when \<open>m\<close> returns, its
  value satisfies \<open>Q\<close>.
\<close>

definition holds :: "'a run \<Rightarrow> (event \<Rightarrow> bool) \<Rightarrow> ('a \<Rightarrow> bool) \<Rightarrow> bool" where
  "holds m E Q \<longleftrightarrow> (\<forall>e\<in>set (trace m). E e) \<and> (\<forall>x. outcome m = Inr x \<longrightarrow> Q x)"

text \<open>
  Two parts of \<^verbatim>\<open>update\<close> that the proofs reason about: \<open>collect\<close> is lines 68-88, up to
  the body, and \<open>resolve\<close> is lines 68-98, up to the confirmation. Both return the
  parameters that the rest of \<^verbatim>\<open>update\<close> uses; \<open>update_collect\<close> and \<open>update_resolve\<close>
  below show that \<^verbatim>\<open>update\<close> is each of them followed by the rest.
\<close>

definition collect :: "world \<Rightarrow> flagSet \<Rightarrow> string list \<Rightarrow> addParams run" where
  "collect w fl args =
     andThen (parseArgsAndFlags w fl args) (\<lambda>params.
     andThen (detectMode w params) (\<lambda>p1.
     andThen (setIssueKey w p1) (\<lambda>(err, p2).
     andThen (ExitIfError err) (\<lambda>_.
     andThen (setCommentId w p2) (\<lambda>(err, p3).
     andThen (ExitIfError err) (\<lambda>_.
     andThen (setBody w p3) (\<lambda>(err, p4).
     andThen (ExitIfError err) (\<lambda>_. ret p4))))))))"

definition resolve :: "world \<Rightarrow> flagSet \<Rightarrow> string list \<Rightarrow> addParams run" where
  "resolve w fl args =
     andThen (parseArgsAndFlags w fl args) (\<lambda>params.
     andThen (detectMode w params) (\<lambda>p1.
     andThen (setIssueKey w p1) (\<lambda>(err, p2).
     andThen (ExitIfError err) (\<lambda>_.
     andThen (setCommentId w p2) (\<lambda>(err, p3).
     andThen (ExitIfError err) (\<lambda>_.
     andThen (setBody w p3) (\<lambda>(err, p4).
     andThen (ExitIfError err) (\<lambda>_.
     andThen (confirm w p4) (\<lambda>_. ret p4)))))))))"

subsection \<open>A concrete invocation\<close>

text \<open>
  A terminal with no piped input, the default project PROJ, one template file, a user who
  types 7 into an input, appends to the editor's default text and chooses to submit, and
  a remote client that holds a legacy comment and accepts every update.
\<close>

definition exampleWorld :: world where
  "exampleWorld =
     \<lparr>stdinHasData = False, projectKey = ''PROJ'', server = ''https://jira.example.com'',
      readFile = (\<lambda>path. if path = ''/path/to/template.tmpl'' then Inr ''from template''
                         else if path = ''-'' then Inr ''from pipe'' else Inl ''no such file''),
      respond = (\<lambda>q. case qprompt q of
                        Input _ \<Rightarrow> Inr ''7''
                      | JiraEditor _ d _ _ _ \<Rightarrow> Inr (d @ '' (edited)'')
                      | Select _ opts \<Rightarrow> Inr ActionSubmit),
      getIssueComment = (\<lambda>k c. Inr (StringBody ''Hello'')),
      updateIssueComment = (\<lambda>k c b i. None),
      navigate = (\<lambda>s k. None),
      translateADF = (\<lambda>d. case d of ADF s \<Rightarrow> s),
      fromJiraMD = (\<lambda>s. s),
      generateServerBrowseURL = (\<lambda>s k. s @ ''/browse/'' @ k)\<rparr>"

definition exampleFlags :: flagSet where
  "exampleFlags =
     \<lparr>flagDebug = (False, None), flagTemplate = ([], None), flagNoInput = (False, None),
      flagInternal = (False, None), flagWeb = (False, None)\<rparr>"

section \<open>Proof rules\<close>

subsection \<open>Sequencing and the rule of consequence\<close>

lemma andThen_Inl: "andThen (t, Inl e) f = (t, Inl e)"
  by (simp add: andThen_def)

lemma andThen_Inr: "andThen (t, Inr x) f = (t @ fst (f x), snd (f x))"
  by (simp add: andThen_def split: prod.splits)

lemma andThen_ret: "andThen (ret x) f = f x"
  by (simp add: andThen_def ret_def split: prod.splits)

lemma andThen_emit: "andThen (emit e) f = (e # fst (f ()), snd (f ()))"
  by (simp add: andThen_def emit_def split: prod.splits)

lemma andThen_ExitIfError:
  "andThen (ExitIfError err) f = (case err of None \<Rightarrow> f () | Some e \<Rightarrow> ([], Inl (ExitError e)))"
  by (simp add: andThen_def ExitIfError_def ret_def split: option.splits prod.splits)

lemma andThen_assoc: "andThen (andThen m f) g = andThen m (\<lambda>x. andThen (f x) g)"
  by (simp add: andThen_def split: prod.splits sum.splits)

lemma trace_andThen:
  "trace (andThen m f) =
     (case outcome m of Inl s \<Rightarrow> trace m | Inr x \<Rightarrow> trace m @ trace (f x))"
  by (simp add: andThen_def split: prod.splits sum.splits)

lemma outcome_andThen:
  "outcome (andThen m f) = (case outcome m of Inl s \<Rightarrow> Inl s | Inr x \<Rightarrow> outcome (f x))"
  by (simp add: andThen_def split: prod.splits sum.splits)

lemma surveyAsk_single:
  "surveyAsk w [q] =
     ([Ask q], Inr (case respond w q of Inl e \<Rightarrow> (Some e, []) | Inr a \<Rightarrow> (None, [(qname q, a)])))"
  by (simp add: andThen_def emit_def ret_def split: sum.splits)

lemma holds_andThen:
  assumes "holds m E Q" and "\<And>x. Q x \<Longrightarrow> holds (f x) E R"
  shows "holds (andThen m f) E R"
proof (cases m)
  case (Pair t r)
  show ?thesis
  proof (cases r)
    case (Inl e)
    with Pair assms(1) show ?thesis by (simp add: holds_def andThen_Inl)
  next
    case (Inr x)
    with Pair assms(1) have "Q x" and "\<forall>e\<in>set t. E e" by (simp_all add: holds_def)
    with assms(2)[of x] Pair Inr show ?thesis
      by (auto simp: holds_def andThen_Inr)
  qed
qed

lemma holds_weaken:
  assumes "holds m E Q" and "\<And>e. E e \<Longrightarrow> E' e" and "\<And>x. Q x \<Longrightarrow> Q' x"
  shows "holds m E' Q'"
  using assms by (auto simp: holds_def)

lemma holds_ret: "Q x \<Longrightarrow> holds (ret x) E Q"
  by (simp add: holds_def ret_def)

lemma holds_ExitIfError: "holds (ExitIfError err) E (\<lambda>_. err = None)"
  by (simp add: holds_def ExitIfError_def ret_def split: option.splits)

subsection \<open>Each block of the source as one equation\<close>

lemma parse_trace: "trace (parseArgsAndFlags w fl args) = []"
  by (simp add: parseArgsAndFlags_def Let_def andThen_ExitIfError ret_def split: option.splits)

lemma parse_outcome:
  "outcome (parseArgsAndFlags w fl args) = Inr p \<Longrightarrow>
     p = \<lparr>issueKey = (if length args \<ge> 1 then GetJiraIssueKey (projectKey w) (args ! 0) else []),
          commentId = (if length args \<ge> 2 then args ! 1 else []),
          body = (if length args \<ge> 3 then args ! 2 else []),
          template = fst (flagTemplate fl), noInput = fst (flagNoInput fl),
          internal = fst (flagInternal fl), debug = fst (flagDebug fl)\<rparr>"
  by (auto simp: parseArgsAndFlags_def Let_def andThen_ExitIfError ret_def split: option.splits)

lemma detectMode_eq:
  "detectMode w p =
     (if isNonInteractive w p \<and> isMandatoryParamsMissing p
      then ([], Inl (Failed ''`ISSUE-KEY` & `COMMENT-ID` are mandatory when using a non-interactive mode'' []))
      else ([], Inr (p\<lparr>noInput := noInput p \<or> isNonInteractive w p\<rparr>)))"
  by (auto simp: detectMode_def Let_def Failed_exit_def ret_def isMandatoryParamsMissing_def)

lemma setIssueKey_eq:
  "setIssueKey w p =
     (if issueKey p \<noteq> [] then ([], Inr (None, p))
      else ([Ask issueKeyQuestion],
            Inr (case respond w issueKeyQuestion of
                   Inl e \<Rightarrow> (Some e, p)
                 | Inr a \<Rightarrow> (None, p\<lparr>issueKey := GetJiraIssueKey (projectKey w) a\<rparr>))))"
  by (simp add: setIssueKey_def surveyAsk_single andThen_Inr ret_def answerOf_def
      issueKeyQuestion_def del: surveyAsk.simps split: sum.splits)

lemma setCommentId_eq:
  "setCommentId w p =
     (if commentId p \<noteq> [] then ([], Inr (None, p))
      else ([Ask commentIdQuestion],
            Inr (case respond w commentIdQuestion of
                   Inl e \<Rightarrow> (Some e, p)
                 | Inr a \<Rightarrow> (None, p\<lparr>commentId := a\<rparr>))))"
  by (simp add: setCommentId_def surveyAsk_single andThen_Inr ret_def answerOf_def
      commentIdQuestion_def del: surveyAsk.simps split: sum.splits)

lemma confirm_eq:
  "confirm w p =
     (if noInput p then ([], Inr ())
      else ([Ask getNextAction],
            case respond w getNextAction of
              Inl e \<Rightarrow> Inl (ExitError e)
            | Inr a \<Rightarrow> if a = ActionCancel then Inl (Failed ''Action aborted'' []) else Inr ()))"
  by (simp add: confirm_def surveyAsk_single andThen_Inr andThen_ExitIfError ret_def answerOf_def
      getNextAction_def Failed_exit_def del: surveyAsk.simps split: sum.splits)

lemma commit_eq:
  "commit w fl p =
     ([Info ''Adding comment'',
       CallUpdateIssueComment (issueKey p) (commentId p) (body p) (internal p),
       SpinnerStop] @
      (case updateIssueComment w (issueKey p) (commentId p) (body p) (internal p) of
         Some e \<Rightarrow> []
       | None \<Rightarrow>
           [Success ''Comment %q of issue %q updated'' [commentId p, issueKey p],
            Printf ''%s?focusedCommentId=%s\<newline>''
              [generateServerBrowseURL w (server w) (issueKey p), commentId p]] @
           (if fst (flagWeb fl) then [CallNavigate (server w) (issueKey p)] else [])),
      (case updateIssueComment w (issueKey p) (commentId p) (body p) (internal p) of
         Some e \<Rightarrow> Inl (ExitError e)
       | None \<Rightarrow>
           if fst (flagWeb fl)
           then (case navigate w (server w) (issueKey p) of
                   None \<Rightarrow> Inr () | Some e \<Rightarrow> Inl (ExitError e))
           else Inr ()))"
  by (simp add: commit_def andThen_def emit_def ExitIfError_def ret_def
      split: option.splits)

lemma setBody_eq:
  "setBody w p =
     (if body p \<noteq> [] then ([], Inr (None, p))
      else andThen (readTemplate w p) (\<lambda>defaultBody.
        if noInput p then ret (None, p\<lparr>body := defaultBody\<rparr>)
        else andThen (prefill w p defaultBody) (\<lambda>d.
          ([Ask (bodyQuestion d)],
           case respond w (bodyQuestion d) of
             Inl e \<Rightarrow> Inl (ExitError e)
           | Inr a \<Rightarrow> Inr (None, p\<lparr>body := a\<rparr>)))))"
  by (auto simp: setBody_def Let_def surveyAsk_single andThen_Inr andThen_ExitIfError ret_def
      answerOf_def bodyQuestion_def fun_eq_iff simp del: surveyAsk.simps
      split: sum.splits intro!: arg_cong2[where f=andThen])

subsection \<open>The command as a sequence of its blocks\<close>

lemma update_collect:
  "update w fl args = andThen (collect w fl args) (\<lambda>p. andThen (confirm w p) (\<lambda>_. commit w fl p))"
  by (simp add: update_def collect_def andThen_assoc andThen_ret split_def)

lemma resolve_collect:
  "resolve w fl args = andThen (collect w fl args) (\<lambda>p. andThen (confirm w p) (\<lambda>_. ret p))"
  by (simp add: resolve_def collect_def andThen_assoc andThen_ret split_def)

lemma update_resolve: "update w fl args = andThen (resolve w fl args) (commit w fl)"
  by (simp add: update_def resolve_def andThen_assoc andThen_ret split_def)

text \<open>
  The rule for the blocks up to the body: a property of the parameters is handed from each
  block to the next, and every event of every block satisfies \<open>E\<close>.
\<close>

lemma holds_collect:
  assumes P: "\<And>p. outcome (parseArgsAndFlags w fl args) = Inr p \<Longrightarrow>
                \<not> (isNonInteractive w p \<and> isMandatoryParamsMissing p) \<Longrightarrow>
                Q1 (p\<lparr>noInput := noInput p \<or> isNonInteractive w p\<rparr>)"
    and K: "\<And>p. Q1 p \<Longrightarrow> holds (setIssueKey w p) E (\<lambda>(err, p'). err = None \<longrightarrow> Q2 p')"
    and C: "\<And>p. Q2 p \<Longrightarrow> holds (setCommentId w p) E (\<lambda>(err, p'). err = None \<longrightarrow> Q3 p')"
    and B: "\<And>p. Q3 p \<Longrightarrow> holds (setBody w p) E (\<lambda>(err, p'). err = None \<longrightarrow> Q4 p')"
  shows "holds (collect w fl args) E Q4"
  unfolding collect_def
  apply (rule holds_andThen[where Q = "\<lambda>p. outcome (parseArgsAndFlags w fl args) = Inr p"])
   apply (simp add: holds_def parse_trace)
  apply (rule holds_andThen[where Q = Q1])
   apply (simp add: holds_def detectMode_eq P)
  apply (rule holds_andThen[OF K], assumption)
  apply clarify
  apply (rule holds_andThen[OF holds_ExitIfError])
  apply simp
  apply (rule holds_andThen[OF C], assumption)
  apply clarify
  apply (rule holds_andThen[OF holds_ExitIfError])
  apply simp
  apply (rule holds_andThen[OF B], assumption)
  apply clarify
  apply (rule holds_andThen[OF holds_ExitIfError])
  apply (simp add: holds_ret)
  done

lemma holds_resolve:
  assumes P: "\<And>p. outcome (parseArgsAndFlags w fl args) = Inr p \<Longrightarrow>
                \<not> (isNonInteractive w p \<and> isMandatoryParamsMissing p) \<Longrightarrow>
                Q1 (p\<lparr>noInput := noInput p \<or> isNonInteractive w p\<rparr>)"
    and K: "\<And>p. Q1 p \<Longrightarrow> holds (setIssueKey w p) E (\<lambda>(err, p'). err = None \<longrightarrow> Q2 p')"
    and C: "\<And>p. Q2 p \<Longrightarrow> holds (setCommentId w p) E (\<lambda>(err, p'). err = None \<longrightarrow> Q3 p')"
    and B: "\<And>p. Q3 p \<Longrightarrow> holds (setBody w p) E (\<lambda>(err, p'). err = None \<longrightarrow> Q4 p')"
    and A: "\<And>p. Q4 p \<Longrightarrow> holds (confirm w p) E (\<lambda>_. Q5 p)"
  shows "holds (resolve w fl args) E Q5"
proof -
  have "holds (collect w fl args) E Q4"
    by (rule holds_collect[where ?Q1.0 = Q1 and ?Q2.0 = Q2 and ?Q3.0 = Q3]) (fact P K C B)+
  moreover have "holds (andThen (confirm w p) (\<lambda>_. ret p)) E Q5" if "Q4 p" for p
    by (rule holds_andThen[OF A[OF that]]) (simp add: holds_ret)
  ultimately show ?thesis
    unfolding resolve_collect by (rule holds_andThen)
qed

subsection \<open>Facts about single blocks\<close>

lemma parse_run: "outcome (parseArgsAndFlags w fl args) = Inr p \<Longrightarrow> parseArgsAndFlags w fl args = ([], Inr p)"
  using parse_trace[of w fl args] by (cases "parseArgsAndFlags w fl args") simp

lemma setBody_template:
  assumes "noInput p" "body p = []" "template p \<noteq> []" "readFile w (template p) = Inr content"
  shows "setBody w p = ([CallReadFile (template p)], Inr (None, p\<lparr>body := content\<rparr>))"
  using assms by (simp add: setBody_eq readTemplate_def andThen_def emit_def ret_def)

lemma setBody_events:
  "\<forall>e\<in>set (trace (setBody w p)).
     e = CallReadFile (template p) \<or>
     (e = CallGetIssueComment (issueKey p) (commentId p) \<and> \<not> noInput p \<and> template p = []) \<or>
     ((\<exists>d. e = Ask (bodyQuestion d)) \<and> \<not> noInput p)"
  by (auto simp: setBody_eq readTemplate_def prefill_def andThen_def emit_def ret_def
      Failed_exit_def ExitIfError_def split: sum.splits commentBody.splits if_splits prod.splits)

lemma setBody_result:
  assumes "outcome (setBody w p) = Inr (err, p')"
  shows "err = None \<and> (\<exists>b. p' = p\<lparr>body := b\<rparr>) \<and>
         (body p' = [] \<longrightarrow> (\<forall>d a. respond w (bodyQuestion d) = Inr a \<longrightarrow> a \<noteq> []) \<longrightarrow>
            body p = [] \<and> noInput p)"
  using assms
  by (auto simp: setBody_eq readTemplate_def prefill_def andThen_def emit_def ret_def
      Failed_exit_def ExitIfError_def split: sum.splits commentBody.splits if_splits prod.splits
      intro: exI[of _ "body p"])

lemma setIssueKey_holds:
  "holds (setIssueKey w p) (\<lambda>e. e = Ask issueKeyQuestion \<and> issueKey p = [])
     (\<lambda>(err, p'). \<exists>k. p' = p\<lparr>issueKey := k\<rparr>)"
  by (auto simp: holds_def setIssueKey_eq split: sum.splits intro: exI[of _ "issueKey p"])

lemma setCommentId_holds:
  "holds (setCommentId w p) (\<lambda>e. e = Ask commentIdQuestion \<and> commentId p = [])
     (\<lambda>(err, p'). \<exists>c. p' = p\<lparr>commentId := c\<rparr>)"
  by (auto simp: holds_def setCommentId_eq split: sum.splits intro: exI[of _ "commentId p"])

lemma setBody_holds:
  "holds (setBody w p)
     (\<lambda>e. e = CallReadFile (template p) \<or>
       (e = CallGetIssueComment (issueKey p) (commentId p) \<and> \<not> noInput p \<and> template p = []) \<or>
       ((\<exists>d. e = Ask (bodyQuestion d)) \<and> \<not> noInput p))
     (\<lambda>(err, p'). err = None \<and> (\<exists>b. p' = p\<lparr>body := b\<rparr>) \<and>
         (body p' = [] \<longrightarrow> (\<forall>d a. respond w (bodyQuestion d) = Inr a \<longrightarrow> a \<noteq> []) \<longrightarrow>
            body p = [] \<and> noInput p))"
  unfolding holds_def using setBody_events[of w p] setBody_result[of w p] by auto


lemma commit_prompts: "filter isPrompt (trace (commit w fl p)) = []"
  by (simp add: commit_eq split: option.splits)

lemma commit_updates:
  "filter isUpdateCall (trace (commit w fl p)) =
     [CallUpdateIssueComment (issueKey p) (commentId p) (body p) (internal p)]"
  by (simp add: commit_eq split: option.splits)

lemma confirm_commit_prompts:
  "filter isPrompt (trace (andThen (confirm w p) (\<lambda>_. commit w fl p))) =
     (if noInput p then [] else [Ask getNextAction])"
  by (simp add: trace_andThen confirm_eq commit_prompts split: sum.splits)

lemma confirm_commit_updates:
  "filter isUpdateCall (trace (andThen (confirm w p) (\<lambda>_. commit w fl p))) =
     (if noInput p \<or> (\<exists>a. respond w getNextAction = Inr a \<and> a \<noteq> ActionCancel)
      then [CallUpdateIssueComment (issueKey p) (commentId p) (body p) (internal p)] else [])"
  by (simp add: trace_andThen confirm_eq commit_updates split: sum.splits)

lemma setBody_interactive:
  assumes "\<not> noInput p" "\<not> isNonInteractive w p" "body p = []" "template p = []"
  shows "setBody w p =
     andThen (prefill w p [])
       (\<lambda>d. ([Ask (bodyQuestion d)],
             case respond w (bodyQuestion d) of
               Inl e \<Rightarrow> Inl (ExitError e)
             | Inr a \<Rightarrow> Inr (None, p\<lparr>body := a\<rparr>)))"
  using assms by (simp add: setBody_eq readTemplate_def isNonInteractive_def andThen_ret)

lemma prefill_eq:
  "template p = [] \<Longrightarrow>
   prefill w p d =
     ([CallGetIssueComment (issueKey p) (commentId p)],
      case getIssueComment w (issueKey p) (commentId p) of
        Inl err \<Rightarrow> Inl (ExitError err)
      | Inr (ADFBody adfNode) \<Rightarrow> Inr (translateADF w adfNode)
      | Inr (StringBody s) \<Rightarrow> Inr (fromJiraMD w s)
      | Inr OtherBody \<Rightarrow> Inl Panic)"
  by (simp add: prefill_def andThen_def emit_def ret_def ExitIfError_def
      split: sum.splits commentBody.splits)

lemma update_interactive:
  assumes pa: "outcome (parseArgsAndFlags w fl args) = Inr p"
    and "\<not> noInput p" "\<not> isNonInteractive w p" "issueKey p \<noteq> []" "commentId p \<noteq> []"
    and sb: "setBody w p = (t, Inl s)"
  shows "update w fl args = (t, Inl s)"
proof -
  have "parseArgsAndFlags w fl args = ([], Inr p)" using pa by (rule parse_run)
  moreover have "detectMode w p = ([], Inr p)" using assms by (simp add: detectMode_eq)
  ultimately show ?thesis
    using assms
    by (simp add: update_def andThen_Inr andThen_Inl setIssueKey_eq setCommentId_eq
        ExitIfError_def ret_def)
qed

lemma collect_no_navigate:
  "holds (collect w fl args) (\<lambda>e. \<not> isNavigate e \<and> \<not> isUpdateCall e) (\<lambda>_. True)"
proof (rule holds_collect[where ?Q1.0 = "\<lambda>_. True" and ?Q2.0 = "\<lambda>_. True" and ?Q3.0 = "\<lambda>_. True"])
  fix q :: addParams
  show "holds (setIssueKey w q) (\<lambda>e. \<not> isNavigate e \<and> \<not> isUpdateCall e) (\<lambda>(err, p'). err = None \<longrightarrow> True)"
    by (intro holds_weaken[OF setIssueKey_holds]) auto
  show "holds (setCommentId w q) (\<lambda>e. \<not> isNavigate e \<and> \<not> isUpdateCall e) (\<lambda>(err, p'). err = None \<longrightarrow> True)"
    by (intro holds_weaken[OF setCommentId_holds]) auto
  show "holds (setBody w q) (\<lambda>e. \<not> isNavigate e \<and> \<not> isUpdateCall e) (\<lambda>(err, p'). err = None \<longrightarrow> True)"
    by (intro holds_weaken[OF setBody_holds]) auto
qed simp

text \<open>The equations that evaluate a run at a concrete invocation.\<close>

lemmas run_simps =
  update_def parseArgsAndFlags_def detectMode_eq setIssueKey_eq setCommentId_eq setBody_eq
  readTemplate_def prefill_def confirm_eq commit_eq andThen_def ret_def emit_def ExitIfError_def
  Failed_exit_def isNonInteractive_def isMandatoryParamsMissing_def GetJiraIssueKey_def
  isBareNumber_def exampleWorld_def exampleFlags_def Let_def getNextAction_def
  issueKeyQuestion_def commentIdQuestion_def bodyQuestion_def ActionSubmit_def ActionCancel_def

section \<open>The claims\<close>

text \<open>
  C1. When the positional body argument is not empty, every call of the remote update
  carries exactly that argument as its body, whatever the template flag, the standard
  input and the remote comment are; and the run reads no file, does not read the standard
  input and does not fetch the existing comment.
\<close>

theorem C1_literal_body_wins:
  assumes "3 \<le> length args" and "args ! 2 \<noteq> []"
  shows "\<forall>e\<in>set (trace (update w fl args)).
           \<not> isFileRead e \<and> \<not> isFetch e \<and>
           (\<forall>k c b i. e = CallUpdateIssueComment k c b i \<longrightarrow> b = args ! 2)"
proof -
  let ?E = "\<lambda>e. \<not> isFileRead e \<and> \<not> isFetch e \<and>
           (\<forall>k c b i. e = CallUpdateIssueComment k c b i \<longrightarrow> b = args ! 2)"
  let ?Q = "\<lambda>p. body p = args ! 2"
  have "holds (resolve w fl args) ?E ?Q"
  proof (rule holds_resolve[where ?Q1.0 = ?Q and ?Q2.0 = ?Q and ?Q3.0 = ?Q and ?Q4.0 = ?Q])
    fix p :: addParams assume "outcome (parseArgsAndFlags w fl args) = Inr p"
    from parse_outcome[OF this] assms(1)
    show "body (p\<lparr>noInput := noInput p \<or> isNonInteractive w p\<rparr>) = args ! 2"
      by simp
  next
    fix p :: addParams assume "body p = args ! 2"
    then show "holds (setIssueKey w p) ?E (\<lambda>(err, p'). err = None \<longrightarrow> body p' = args ! 2)"
      by (simp add: holds_def setIssueKey_eq split: sum.splits)
  next
    fix p :: addParams assume "body p = args ! 2"
    then show "holds (setCommentId w p) ?E (\<lambda>(err, p'). err = None \<longrightarrow> body p' = args ! 2)"
      by (simp add: holds_def setCommentId_eq split: sum.splits)
  next
    fix p :: addParams assume "body p = args ! 2"
    with assms(2)
    show "holds (setBody w p) ?E (\<lambda>(err, p'). err = None \<longrightarrow> body p' = args ! 2)"
      by (simp add: holds_def setBody_eq)
  next
    fix p :: addParams assume "body p = args ! 2"
    then show "holds (confirm w p) ?E (\<lambda>_. body p = args ! 2)"
      by (simp add: holds_def confirm_eq split: sum.splits)
  qed
  then show ?thesis
    by (auto simp: update_resolve trace_andThen holds_def commit_eq
        split: sum.splits option.splits if_splits)
qed

text \<open>C1 at the invocation of the help text, with a template flag and piped input.\<close>

theorem C1_witness:
  "update (exampleWorld\<lparr>stdinHasData := True\<rparr>)
     (exampleFlags\<lparr>flagTemplate := (''/path/to/template.tmpl'', None)\<rparr>)
     [''ISSUE-1'', ''986745'', ''comment from arg''] =
   ([Info ''Adding comment'',
     CallUpdateIssueComment ''ISSUE-1'' ''986745'' ''comment from arg'' False,
     SpinnerStop,
     Success ''Comment %q of issue %q updated'' [''986745'', ''ISSUE-1''],
     Printf ''%s?focusedCommentId=%s\<newline>''
       [''https://jira.example.com/browse/ISSUE-1'', ''986745'']], Inr ())"
  using C1_literal_body_wins[of "[''ISSUE-1'', ''986745'', ''comment from arg'']"
      "exampleWorld\<lparr>stdinHasData := True\<rparr>"
      "exampleFlags\<lparr>flagTemplate := (''/path/to/template.tmpl'', None)\<rparr>"]
  by (simp add: run_simps)

text \<open>
  C2. When the invocation is non-interactive (the standard input has data, or the template
  flag is "-") and the issue key or the comment id is empty after parsing, the command
  stops with the missing-field failure and its trace is empty: no remote call was made and
  nothing was read.
\<close>

theorem C2_mandatory_guard:
  assumes "outcome (parseArgsAndFlags w fl args) = Inr p"
    and "isNonInteractive w p"
    and "issueKey p = [] \<or> commentId p = []"
  shows "update w fl args =
           ([], Inl (Failed
             ''`ISSUE-KEY` & `COMMENT-ID` are mandatory when using a non-interactive mode'' []))"
  using assms(2,3)
  by (simp add: update_def parse_run[OF assms(1)] andThen_Inr andThen_Inl detectMode_eq
      isMandatoryParamsMissing_def)

text \<open>C2 at the spec's scenario: the template flag "-", piped input, no arguments.\<close>

theorem C2_witness:
  "update (exampleWorld\<lparr>stdinHasData := True\<rparr>) (exampleFlags\<lparr>flagTemplate := (''-'', None)\<rparr>) []
     = ([], Inl (Failed
             ''`ISSUE-KEY` & `COMMENT-ID` are mandatory when using a non-interactive mode'' []))"
  by (rule C2_mandatory_guard[where p = "\<lparr>issueKey = [], commentId = [], body = [],
         template = ''-'', noInput = False, internal = False, debug = False\<rparr>"])
     (simp_all add: run_simps)

text \<open>
  C3. With noInput in force (by the flag or by mode detection), an empty positional body
  and a template path that can be read, every update call carries the exact content of
  the file and the comment is never fetched; when the issue key and the comment id are
  given, the run is the file read followed by the commit with that content.
\<close>

theorem C3_template_verbatim:
  assumes pa: "outcome (parseArgsAndFlags w fl args) = Inr p"
    and ni: "noInput p \<or> isNonInteractive w p"
    and b: "body p = []" and t: "template p \<noteq> []"
    and rd: "readFile w (template p) = Inr content"
  shows "(\<forall>e\<in>set (trace (update w fl args)).
            \<not> isFetch e \<and> (\<forall>k c b i. e = CallUpdateIssueComment k c b i \<longrightarrow> b = content)) \<and>
         (issueKey p \<noteq> [] \<longrightarrow> commentId p \<noteq> [] \<longrightarrow>
            update w fl args =
              andThen (emit (CallReadFile (template p)))
                (\<lambda>_. commit w fl (p\<lparr>noInput := True, body := content\<rparr>)))"
proof
  let ?E = "\<lambda>e. \<not> isFetch e \<and> (\<forall>k c b i. e = CallUpdateIssueComment k c b i \<longrightarrow> b = content)"
  let ?Q = "\<lambda>q. noInput q \<and> body q = [] \<and> template q = template p"
  let ?R = "\<lambda>q::addParams. body q = content"
  have "holds (resolve w fl args) ?E ?R"
  proof (rule holds_resolve[where ?Q1.0 = ?Q and ?Q2.0 = ?Q and ?Q3.0 = ?Q and ?Q4.0 = "\<lambda>q. noInput q \<and> body q = content"])
    fix q :: addParams assume "outcome (parseArgsAndFlags w fl args) = Inr q"
    with pa have "q = p" by simp
    with ni b show "?Q (q\<lparr>noInput := noInput q \<or> isNonInteractive w q\<rparr>)" by simp
  next
    fix q :: addParams assume "?Q q"
    then show "holds (setIssueKey w q) ?E (\<lambda>(err, p'). err = None \<longrightarrow> ?Q p')"
      by (simp add: holds_def setIssueKey_eq split: sum.splits)
  next
    fix q :: addParams assume "?Q q"
    then show "holds (setCommentId w q) ?E (\<lambda>(err, p'). err = None \<longrightarrow> ?Q p')"
      by (simp add: holds_def setCommentId_eq split: sum.splits)
  next
    fix q :: addParams assume "?Q q"
    with t rd have "setBody w q = ([CallReadFile (template q)], Inr (None, q\<lparr>body := content\<rparr>))"
      by (intro setBody_template) simp_all
    with \<open>?Q q\<close> show "holds (setBody w q) ?E (\<lambda>(err, p'). err = None \<longrightarrow> noInput p' \<and> body p' = content)"
      by (simp add: holds_def)
  next
    fix q :: addParams assume "noInput q \<and> body q = content"
    then show "holds (confirm w q) ?E (\<lambda>_. body q = content)"
      by (simp add: holds_def confirm_eq)
  qed
  then show "\<forall>e\<in>set (trace (update w fl args)). ?E e"
    by (auto simp: update_resolve trace_andThen holds_def commit_eq
        split: sum.splits option.splits if_splits)
next
  show "issueKey p \<noteq> [] \<longrightarrow> commentId p \<noteq> [] \<longrightarrow>
            update w fl args =
              andThen (emit (CallReadFile (template p)))
                (\<lambda>_. commit w fl (p\<lparr>noInput := True, body := content\<rparr>))"
  proof (intro impI)
    assume k: "issueKey p \<noteq> []" and c: "commentId p \<noteq> []"
    let ?p1 = "p\<lparr>noInput := True\<rparr>"
    from ni have dm: "detectMode w p = ([], Inr ?p1)"
      using k c by (auto simp: detectMode_eq isMandatoryParamsMissing_def)
    have sb: "setBody w ?p1 = ([CallReadFile (template p)], Inr (None, ?p1\<lparr>body := content\<rparr>))"
      using setBody_template[of ?p1 w content] b t rd by simp
    show "update w fl args =
              andThen (emit (CallReadFile (template p)))
                (\<lambda>_. commit w fl (p\<lparr>noInput := True, body := content\<rparr>))"
      using k c
      by (simp add: update_def parse_run[OF pa] andThen_Inr dm setIssueKey_eq setCommentId_eq sb
          confirm_eq andThen_emit ExitIfError_def ret_def)
  qed
qed

text \<open>C3 at a template file with the no-input flag: the file's content is what is sent.\<close>

theorem C3_witness:
  "update exampleWorld
        (exampleFlags\<lparr>flagTemplate := (''/path/to/template.tmpl'', None),
                      flagNoInput := (True, None)\<rparr>) [''ISSUE-1'', ''986745''] =
     ([CallReadFile ''/path/to/template.tmpl'',
       Info ''Adding comment'',
       CallUpdateIssueComment ''ISSUE-1'' ''986745'' ''from template'' False,
       SpinnerStop,
       Success ''Comment %q of issue %q updated'' [''986745'', ''ISSUE-1''],
       Printf ''%s?focusedCommentId=%s\<newline>''
         [''https://jira.example.com/browse/ISSUE-1'', ''986745'']], Inr ())"
proof -
  let ?p = "\<lparr>issueKey = ''ISSUE-1'', commentId = ''986745'', body = [],
            template = ''/path/to/template.tmpl'', noInput = True, internal = False,
            debug = False\<rparr>"
  have pa: "outcome (parseArgsAndFlags exampleWorld
        (exampleFlags\<lparr>flagTemplate := (''/path/to/template.tmpl'', None),
                      flagNoInput := (True, None)\<rparr>) [''ISSUE-1'', ''986745'']) = Inr ?p"
    by (simp add: run_simps)
  have rd: "readFile exampleWorld (template ?p) = Inr ''from template''"
    by (simp add: exampleWorld_def)
  from C3_template_verbatim[OF pa _ _ _ rd]
  show ?thesis
    by (simp add: commit_eq andThen_emit exampleWorld_def exampleFlags_def)
qed



text \<open>
  C5. In interactive mode (noInput neither set by the flag nor by mode detection) the
  confirmation offers exactly the two options; when its answer is one of them and is not
  "submit", no update call is issued in the whole run, the run stops, and once the
  confirmation has been asked it is the last event and the run stops with the failure
  "Action aborted". With the issue key, the comment id and the body given, the run is
  the confirmation followed by that failure.
\<close>

theorem C5_confirmation_gate:
  assumes pa: "outcome (parseArgsAndFlags w fl args) = Inr p"
    and ni: "\<not> noInput p" "\<not> isNonInteractive w p"
    and an: "respond w getNextAction = Inr a" "a \<in> set [ActionSubmit, ActionCancel]"
      "a \<noteq> ActionSubmit"
  shows "qprompt getNextAction = Select ''What's next?'' [ActionSubmit, ActionCancel] \<and>
         (\<forall>e\<in>set (trace (update w fl args)). \<not> isUpdateCall e) \<and>
         (\<exists>s. outcome (update w fl args) = Inl s) \<and>
         (Ask getNextAction \<in> set (trace (update w fl args)) \<longrightarrow>
            outcome (update w fl args) = Inl (Failed ''Action aborted'' []) \<and>
            last (trace (update w fl args)) = Ask getNextAction) \<and>
         (issueKey p \<noteq> [] \<longrightarrow> commentId p \<noteq> [] \<longrightarrow> body p \<noteq> [] \<longrightarrow>
            update w fl args = ([Ask getNextAction], Inl (Failed ''Action aborted'' [])))"
proof -
  from an have a: "respond w getNextAction = Inr ActionCancel" by auto
  let ?E = "\<lambda>e. \<not> isUpdateCall e \<and> e \<noteq> Ask getNextAction"
  let ?Q = "\<lambda>q. \<not> noInput q"
  have ne: "issueKeyQuestion \<noteq> getNextAction" "commentIdQuestion \<noteq> getNextAction"
    "\<And>d. bodyQuestion d \<noteq> getNextAction"
    by (simp_all add: issueKeyQuestion_def commentIdQuestion_def getNextAction_def bodyQuestion_def)
  have co: "holds (collect w fl args) ?E ?Q"
  proof (rule holds_collect[where ?Q1.0 = ?Q and ?Q2.0 = ?Q and ?Q3.0 = ?Q])
    fix q :: addParams assume "outcome (parseArgsAndFlags w fl args) = Inr q"
    with pa have "q = p" by simp
    with ni show "?Q (q\<lparr>noInput := noInput q \<or> isNonInteractive w q\<rparr>)" by simp
  next
    fix q :: addParams assume "?Q q"
    with ne show "holds (setIssueKey w q) ?E (\<lambda>(err, p'). err = None \<longrightarrow> ?Q p')"
      by (intro holds_weaken[OF setIssueKey_holds]) auto
  next
    fix q :: addParams assume "?Q q"
    with ne show "holds (setCommentId w q) ?E (\<lambda>(err, p'). err = None \<longrightarrow> ?Q p')"
      by (intro holds_weaken[OF setCommentId_holds]) auto
  next
    fix q :: addParams assume "?Q q"
    with ne show "holds (setBody w q) ?E (\<lambda>(err, p'). err = None \<longrightarrow> ?Q p')"
      by (intro holds_weaken[OF setBody_holds]) auto
  qed
  have cf: "confirm w q = ([Ask getNextAction], Inl (Failed ''Action aborted'' []))"
    if "\<not> noInput q" for q
    using that a by (simp add: confirm_eq)
  have up: "update w fl args =
      (case outcome (collect w fl args) of
         Inl s \<Rightarrow> (trace (collect w fl args), Inl s)
       | Inr q \<Rightarrow> (trace (collect w fl args) @ [Ask getNextAction],
                   Inl (Failed ''Action aborted'' [])))"
  proof (cases "collect w fl args")
    case (Pair t r)
    show ?thesis
    proof (cases r)
      case (Inl s)
      with Pair show ?thesis by (simp add: update_collect andThen_Inl)
    next
      case (Inr q)
      with Pair co have "\<not> noInput q" by (simp add: holds_def)
      with Pair Inr show ?thesis by (simp add: update_collect andThen_Inr cf andThen_Inl)
    qed
  qed
  have 1: "qprompt getNextAction = Select ''What's next?'' [ActionSubmit, ActionCancel]"
    by (simp add: getNextAction_def)
  have 2: "\<forall>e\<in>set (trace (update w fl args)). \<not> isUpdateCall e"
    using co by (auto simp: up holds_def split: sum.splits)
  have 3: "\<exists>s. outcome (update w fl args) = Inl s"
    by (auto simp: up split: sum.splits)
  have 4: "Ask getNextAction \<in> set (trace (update w fl args)) \<longrightarrow>
            outcome (update w fl args) = Inl (Failed ''Action aborted'' []) \<and>
            last (trace (update w fl args)) = Ask getNextAction"
    using co by (auto simp: up holds_def split: sum.splits)
  have 5: "issueKey p \<noteq> [] \<longrightarrow> commentId p \<noteq> [] \<longrightarrow> body p \<noteq> [] \<longrightarrow>
            update w fl args = ([Ask getNextAction], Inl (Failed ''Action aborted'' []))"
  proof (intro impI)
    assume "issueKey p \<noteq> []" "commentId p \<noteq> []" "body p \<noteq> []"
    moreover have "parseArgsAndFlags w fl args = ([], Inr p)" using pa by (rule parse_run)
    moreover have "detectMode w p = ([], Inr p)" using ni by (simp add: detectMode_eq)
    ultimately show "update w fl args = ([Ask getNextAction], Inl (Failed ''Action aborted'' []))"
      using ni by (simp add: update_def andThen_Inr setIssueKey_eq setCommentId_eq setBody_eq
          cf andThen_Inl ExitIfError_def ret_def)
  qed
  from 1 2 3 4 5 show ?thesis by blast
qed

text \<open>
  C5 at a user who answers "cancel".
\<close>

theorem C5_witness:
  "update (exampleWorld\<lparr>respond := (\<lambda>q. Inr ActionCancel)\<rparr>) exampleFlags
     [''ISSUE-1'', ''986745'', ''My comment''] =
   ([Ask getNextAction], Inl (Failed ''Action aborted'' []))"
  using C5_confirmation_gate[where w = "exampleWorld\<lparr>respond := (\<lambda>q. Inr ActionCancel)\<rparr>"
      and fl = exampleFlags and args = "[''ISSUE-1'', ''986745'', ''My comment'']"
      and a = ActionCancel
      and p = "\<lparr>issueKey = ''ISSUE-1'', commentId = ''986745'', body = ''My comment'',
               template = [], noInput = False, internal = False, debug = False\<rparr>"]
  by (simp add: run_simps)

text \<open>
  C6, as the claim states it, fails: without the no-input flag the invocation of the
  scenario asks the confirmation of line 92 before it calls the update.
\<close>

theorem C6_counterexample:
  "update exampleWorld (exampleFlags\<lparr>flagInternal := (True, None)\<rparr>)
     [''12'', ''1001'', ''fixed typo''] =
   ([Ask getNextAction,
     Info ''Adding comment'',
     CallUpdateIssueComment ''PROJ-12'' ''1001'' ''fixed typo'' True,
     SpinnerStop,
     Success ''Comment %q of issue %q updated'' [''1001'', ''PROJ-12''],
     Printf ''%s?focusedCommentId=%s\<newline>''
       [''https://jira.example.com/browse/PROJ-12'', ''1001'']], Inr ())"
  by (simp add: run_simps)

text \<open>
  C6, amended. For the arguments 12, 1001, "fixed typo", the default project PROJ, the
  internal flag, no piped input and no template flag: the issue key expands to PROJ-12; the
  issue key, the comment id and the editor are never prompted for; with the no-input flag
  no prompt is issued at all, without it the confirmation is the one prompt issued; and
  the update is called, once, with (PROJ-12, 1001, "fixed typo", true) when the no-input flag
  is set or the confirmation is answered with anything but "cancel", and is not called
  otherwise.
\<close>

theorem C6_scenario:
  assumes "projectKey w = ''PROJ''" and "\<not> stdinHasData w"
    and "flagTemplate fl = ([], None)" and "flagInternal fl = (True, None)"
    and "snd (flagDebug fl) = None" and "snd (flagNoInput fl) = None"
  shows "outcome (parseArgsAndFlags w fl [''12'', ''1001'', ''fixed typo'']) =
           Inr \<lparr>issueKey = ''PROJ-12'', commentId = ''1001'', body = ''fixed typo'',
                template = [], noInput = fst (flagNoInput fl), internal = True,
                debug = fst (flagDebug fl)\<rparr> \<and>
         filter isPrompt (trace (update w fl [''12'', ''1001'', ''fixed typo''])) =
           (if fst (flagNoInput fl) then [] else [Ask getNextAction]) \<and>
         filter isUpdateCall (trace (update w fl [''12'', ''1001'', ''fixed typo''])) =
           (if fst (flagNoInput fl) \<or>
               (\<exists>a. respond w getNextAction = Inr a \<and> a \<noteq> ActionCancel)
            then [CallUpdateIssueComment ''PROJ-12'' ''1001'' ''fixed typo'' True] else [])"
proof -
  let ?p = "\<lparr>issueKey = ''PROJ-12'', commentId = ''1001'', body = ''fixed typo'',
                template = [], noInput = fst (flagNoInput fl), internal = True,
                debug = fst (flagDebug fl)\<rparr>"
  have key: "GetJiraIssueKey ''PROJ'' ''12'' = ''PROJ-12''"
    by (simp add: GetJiraIssueKey_def isBareNumber_def)
  have pr: "parseArgsAndFlags w fl [''12'', ''1001'', ''fixed typo''] = ([], Inr ?p)"
    using assms
    by (simp add: parseArgsAndFlags_def Let_def ExitIfError_def andThen_def key ret_def)
  have dm: "detectMode w ?p = ([], Inr ?p)"
    using assms by (simp add: detectMode_eq isNonInteractive_def)
  have up: "update w fl [''12'', ''1001'', ''fixed typo''] =
      andThen (confirm w ?p) (\<lambda>_. commit w fl ?p)"
    by (simp add: update_def pr dm andThen_Inr setIssueKey_eq setCommentId_eq setBody_eq
        ExitIfError_def ret_def)
  show ?thesis
    unfolding up confirm_commit_prompts confirm_commit_updates pr by simp
qed

text \<open>
  The amended C6 at the scenario with the no-input flag: no prompt, one update call.
\<close>

theorem C6_witness:
  "filter isPrompt (trace (update exampleWorld
      (exampleFlags\<lparr>flagInternal := (True, None), flagNoInput := (True, None)\<rparr>)
      [''12'', ''1001'', ''fixed typo''])) = [] \<and>
   filter isUpdateCall (trace (update exampleWorld
      (exampleFlags\<lparr>flagInternal := (True, None), flagNoInput := (True, None)\<rparr>)
      [''12'', ''1001'', ''fixed typo''])) =
     [CallUpdateIssueComment ''PROJ-12'' ''1001'' ''fixed typo'' True]"
  using C6_scenario[of exampleWorld
      "exampleFlags\<lparr>flagInternal := (True, None), flagNoInput := (True, None)\<rparr>"]
  by (simp add: exampleWorld_def exampleFlags_def)




text \<open>
  C8. In interactive mode with an empty positional body and an empty template flag,
  \<^verbatim>\<open>setBody\<close> first fetches the existing comment. A structured document goes through
  the document translator and a legacy string through the markup converter, and the result
  is the default text of the editor. When the fetch fails, \<^verbatim>\<open>setBody\<close> stops with the
  error after the fetch, and so does the whole command.
\<close>

theorem C8_remote_prefill:
  assumes "\<not> noInput p" and "\<not> isNonInteractive w p" and "body p = []" and "template p = []"
  shows "take 1 (trace (setBody w p)) = [CallGetIssueComment (issueKey p) (commentId p)] \<and>
         (getIssueComment w (issueKey p) (commentId p) = Inr (ADFBody d) \<longrightarrow>
            setBody w p =
              ([CallGetIssueComment (issueKey p) (commentId p),
                Ask (bodyQuestion (translateADF w d))],
               case respond w (bodyQuestion (translateADF w d)) of
                 Inl e \<Rightarrow> Inl (ExitError e)
               | Inr a \<Rightarrow> Inr (None, p\<lparr>body := a\<rparr>))) \<and>
         (getIssueComment w (issueKey p) (commentId p) = Inr (StringBody s) \<longrightarrow>
            setBody w p =
              ([CallGetIssueComment (issueKey p) (commentId p),
                Ask (bodyQuestion (fromJiraMD w s))],
               case respond w (bodyQuestion (fromJiraMD w s)) of
                 Inl e \<Rightarrow> Inl (ExitError e)
               | Inr a \<Rightarrow> Inr (None, p\<lparr>body := a\<rparr>))) \<and>
         (getIssueComment w (issueKey p) (commentId p) = Inl err \<longrightarrow>
            setBody w p =
              ([CallGetIssueComment (issueKey p) (commentId p)], Inl (ExitError err)) \<and>
            (outcome (parseArgsAndFlags w fl args) = Inr p \<longrightarrow>
             issueKey p \<noteq> [] \<longrightarrow> commentId p \<noteq> [] \<longrightarrow>
               update w fl args =
                 ([CallGetIssueComment (issueKey p) (commentId p)], Inl (ExitError err))))"
proof -
  note sb = setBody_interactive[OF assms] prefill_eq[OF assms(4)]
  have 1: "take 1 (trace (setBody w p)) = [CallGetIssueComment (issueKey p) (commentId p)]"
    by (simp add: sb andThen_def split: sum.splits commentBody.splits)
  have 2: "getIssueComment w (issueKey p) (commentId p) = Inr (ADFBody d) \<longrightarrow>
            setBody w p =
              ([CallGetIssueComment (issueKey p) (commentId p),
                Ask (bodyQuestion (translateADF w d))],
               case respond w (bodyQuestion (translateADF w d)) of
                 Inl e \<Rightarrow> Inl (ExitError e)
               | Inr a \<Rightarrow> Inr (None, p\<lparr>body := a\<rparr>))"
    by (simp add: sb andThen_def)
  have 3: "getIssueComment w (issueKey p) (commentId p) = Inr (StringBody s) \<longrightarrow>
            setBody w p =
              ([CallGetIssueComment (issueKey p) (commentId p),
                Ask (bodyQuestion (fromJiraMD w s))],
               case respond w (bodyQuestion (fromJiraMD w s)) of
                 Inl e \<Rightarrow> Inl (ExitError e)
               | Inr a \<Rightarrow> Inr (None, p\<lparr>body := a\<rparr>))"
    by (simp add: sb andThen_def)
  have 4: "getIssueComment w (issueKey p) (commentId p) = Inl err \<longrightarrow>
            setBody w p =
              ([CallGetIssueComment (issueKey p) (commentId p)], Inl (ExitError err))"
    by (simp add: sb andThen_def)
  have 5: "getIssueComment w (issueKey p) (commentId p) = Inl err \<longrightarrow>
            outcome (parseArgsAndFlags w fl args) = Inr p \<longrightarrow>
             issueKey p \<noteq> [] \<longrightarrow> commentId p \<noteq> [] \<longrightarrow>
               update w fl args =
                 ([CallGetIssueComment (issueKey p) (commentId p)], Inl (ExitError err))"
    using 4 update_interactive[OF _ assms(1,2)] by blast
  from 1 2 3 4 5 show ?thesis by blast
qed

text \<open>
  C8 at a comment whose body is a structured document.
\<close>

theorem C8_witness:
  "setBody (exampleWorld\<lparr>getIssueComment := (\<lambda>k c. Inr (ADFBody (ADF ''Hello'')))\<rparr>)
     \<lparr>issueKey = ''PROJ-12'', commentId = ''1001'', body = [], template = [],
      noInput = False, internal = False, debug = False\<rparr> =
   ([CallGetIssueComment ''PROJ-12'' ''1001'', Ask (bodyQuestion ''Hello'')],
    Inr (None, \<lparr>issueKey = ''PROJ-12'', commentId = ''1001'', body = ''Hello (edited)'',
               template = [], noInput = False, internal = False, debug = False\<rparr>))"
  using C8_remote_prefill[where
      w = "exampleWorld\<lparr>getIssueComment := (\<lambda>k c. Inr (ADFBody (ADF ''Hello'')))\<rparr>"
      and p = "\<lparr>issueKey = ''PROJ-12'', commentId = ''1001'', body = [], template = [],
               noInput = False, internal = False, debug = False\<rparr>"
      and d = "ADF ''Hello''"]
  by (simp add: exampleWorld_def isNonInteractive_def bodyQuestion_def)

text \<open>
  C9. When a run attempts the browser navigation, the web flag is set, and the trace ends
  with the update call, the end of the spinner, the success message, the deep link and the
  navigation, in this order; that update call succeeded; nothing before it is another
  navigation or update call; and the run ends normally when the navigation succeeds and
  stops with the navigation's error when it fails.
\<close>

theorem C9_navigate_after_update:
  assumes nav: "CallNavigate s k \<in> set (trace (update w fl args))"
  shows "fst (flagWeb fl) \<and>
         (\<exists>pre c b i.
            trace (update w fl args) =
              pre @ [CallUpdateIssueComment k c b i, SpinnerStop,
                     Success ''Comment %q of issue %q updated'' [c, k],
                     Printf ''%s?focusedCommentId=%s\<newline>'' [generateServerBrowseURL w s k, c],
                     CallNavigate s k] \<and>
            updateIssueComment w k c b i = None \<and>
            list_all (\<lambda>e. \<not> isNavigate e \<and> \<not> isUpdateCall e) pre) \<and>
         outcome (update w fl args) =
           (case navigate w s k of None \<Rightarrow> Inr () | Some e \<Rightarrow> Inl (ExitError e))"
proof (cases "collect w fl args")
  case (Pair t r)
  with collect_no_navigate[of w fl args]
  have t: "\<forall>e\<in>set t. \<not> isNavigate e \<and> \<not> isUpdateCall e" by (simp add: holds_def)
  show ?thesis
  proof (cases r)
    case (Inl x)
    with Pair nav t show ?thesis by (auto simp: update_collect andThen_Inl)
  next
    case (Inr q)
    let ?t2 = "trace (confirm w q)"
    have c2: "\<forall>e\<in>set ?t2. \<not> isNavigate e \<and> \<not> isUpdateCall e"
      by (simp add: confirm_eq)
    show ?thesis
    proof (cases "outcome (confirm w q)")
      case (Inl x)
      then have "trace (update w fl args) = t @ ?t2"
        using Pair Inr by (simp add: update_collect andThen_Inr trace_andThen)
      with nav t c2 show ?thesis by auto
    next
      case (Inr u)
      then have tr: "trace (update w fl args) = t @ ?t2 @ trace (commit w fl q)"
        and oc: "outcome (update w fl args) = outcome (commit w fl q)"
        using Pair \<open>r = Inr q\<close>
        by (simp_all add: update_collect andThen_Inr trace_andThen outcome_andThen)
      from nav t c2 have n3: "CallNavigate s k \<in> set (trace (commit w fl q))"
        by (auto simp: tr)
      then have web: "fst (flagWeb fl)"
        and ok: "updateIssueComment w (issueKey q) (commentId q) (body q) (internal q) = None"
        and sk: "s = server w" "k = issueKey q"
        by (auto simp: commit_eq split: option.splits if_splits)
      let ?pre = "t @ ?t2 @ [Info ''Adding comment'']"
      have "trace (update w fl args) =
              ?pre @ [CallUpdateIssueComment k (commentId q) (body q) (internal q), SpinnerStop,
                     Success ''Comment %q of issue %q updated'' [commentId q, k],
                     Printf ''%s?focusedCommentId=%s\<newline>''
                       [generateServerBrowseURL w s k, commentId q],
                     CallNavigate s k]"
        using web ok sk by (simp add: tr commit_eq)
      moreover have "list_all (\<lambda>e. \<not> isNavigate e \<and> \<not> isUpdateCall e) ?pre"
        using t c2 by (auto simp: list_all_iff)
      moreover have "updateIssueComment w k (commentId q) (body q) (internal q) = None"
        using ok sk by simp
      moreover have "outcome (update w fl args) =
           (case navigate w s k of None \<Rightarrow> Inr () | Some e \<Rightarrow> Inl (ExitError e))"
        using web ok sk by (simp add: oc commit_eq)
      ultimately show ?thesis using web by blast
    qed
  qed
qed

text \<open>
  C9 at a browser that cannot be launched: the comment is updated, then the run fails.
\<close>

theorem C9_witness:
  "update (exampleWorld\<lparr>navigate := (\<lambda>s k. Some ''no browser'')\<rparr>)
     (exampleFlags\<lparr>flagWeb := (True, None), flagNoInput := (True, None)\<rparr>)
     [''ISSUE-1'', ''986745'', ''My comment''] =
   ([Info ''Adding comment'',
     CallUpdateIssueComment ''ISSUE-1'' ''986745'' ''My comment'' False,
     SpinnerStop,
     Success ''Comment %q of issue %q updated'' [''986745'', ''ISSUE-1''],
     Printf ''%s?focusedCommentId=%s\<newline>''
       [''https://jira.example.com/browse/ISSUE-1'', ''986745''],
     CallNavigate ''https://jira.example.com'' ''ISSUE-1''],
    Inl (ExitError ''no browser''))"
  using C9_navigate_after_update[where
      w = "exampleWorld\<lparr>navigate := (\<lambda>s k. Some ''no browser'')\<rparr>"
      and fl = "exampleFlags\<lparr>flagWeb := (True, None), flagNoInput := (True, None)\<rparr>"
      and args = "[''ISSUE-1'', ''986745'', ''My comment'']"
      and s = "''https://jira.example.com''" and k = "''ISSUE-1''"]
  by (simp add: run_simps)

text \<open>
  C10. On the remote-prefill path, when the fetched body is neither a structured document
  nor a string, \<^verbatim>\<open>setBody\<close> panics right after the fetch (and so does the command, with
  no failure reported through \<^verbatim>\<open>cmdutil\<close>); and \<^verbatim>\<open>setBody\<close> panics on this path only
  for such a body.
\<close>

theorem C10_unchecked_assertion:
  assumes "\<not> noInput p" and "\<not> isNonInteractive w p" and "body p = []" and "template p = []"
  shows "(getIssueComment w (issueKey p) (commentId p) = Inr OtherBody \<longrightarrow>
            setBody w p = ([CallGetIssueComment (issueKey p) (commentId p)], Inl Panic) \<and>
            (outcome (parseArgsAndFlags w fl args) = Inr p \<longrightarrow>
             issueKey p \<noteq> [] \<longrightarrow> commentId p \<noteq> [] \<longrightarrow>
               update w fl args =
                 ([CallGetIssueComment (issueKey p) (commentId p)], Inl Panic))) \<and>
         (outcome (setBody w p) = Inl Panic \<longrightarrow>
            getIssueComment w (issueKey p) (commentId p) = Inr OtherBody)"
proof -
  note sb = setBody_interactive[OF assms] prefill_eq[OF assms(4)]
  have 1: "getIssueComment w (issueKey p) (commentId p) = Inr OtherBody \<longrightarrow>
            setBody w p = ([CallGetIssueComment (issueKey p) (commentId p)], Inl Panic)"
    by (simp add: sb andThen_def)
  have 2: "getIssueComment w (issueKey p) (commentId p) = Inr OtherBody \<longrightarrow>
            outcome (parseArgsAndFlags w fl args) = Inr p \<longrightarrow>
             issueKey p \<noteq> [] \<longrightarrow> commentId p \<noteq> [] \<longrightarrow>
               update w fl args =
                 ([CallGetIssueComment (issueKey p) (commentId p)], Inl Panic)"
    using 1 update_interactive[OF _ assms(1,2)] by blast
  have 3: "outcome (setBody w p) = Inl Panic \<longrightarrow>
            getIssueComment w (issueKey p) (commentId p) = Inr OtherBody"
    by (auto simp: sb andThen_def split: sum.splits commentBody.splits)
  from 1 2 3 show ?thesis by blast
qed

text \<open>
  C10 at a comment whose body has another dynamic type.
\<close>

theorem C10_witness:
  "update (exampleWorld\<lparr>getIssueComment := (\<lambda>k c. Inr OtherBody)\<rparr>) exampleFlags
     [''PROJ-12'', ''1001''] =
   ([CallGetIssueComment ''PROJ-12'' ''1001''], Inl Panic)"
  using C10_unchecked_assertion[where
      w = "exampleWorld\<lparr>getIssueComment := (\<lambda>k c. Inr OtherBody)\<rparr>"
      and fl = exampleFlags and args = "[''PROJ-12'', ''1001'']"
      and p = "\<lparr>issueKey = ''PROJ-12'', commentId = ''1001'', body = [], template = [],
               noInput = False, internal = False, debug = False\<rparr>"]
  by (simp add: run_simps)

end
